theory Spec2Isabelle
  imports Main "HOL-Library.Char_ord" "HOL-Library.List_Lexorder"
begin

section \<open>Python values, errors and string helpers\<close>

text \<open>
  The backend is \<^verbatim>\<open>medallion/backends/postgres_backend.py\<close>: a class
  \<^verbatim>\<open>PostgresBackend\<close> whose methods query a session of an object-relational mapper
  and reshape rows into dictionaries. The model keeps the database as an explicit value
  that every method takes (and returns, when it writes), Python exceptions as values of
  the type \<open>error\<close>, and Python dictionaries as maps from keys to values.

  A submitted object is a parsed JSON object: a dictionary whose values are any JSON
  values. A number is kept as its literal.
\<close>

datatype dbapi_error = IntegrityError | ProgrammingError | OtherDBAPIError

datatype error =
  KeyError string | IndexError | AttributeError | TypeError | DBAPIError dbapi_error

datatype json =
    JNull
  | JBool bool
  | JNumber string
  | JString string
  | JArray "json list"
  | JObject "(string \<times> json) list"

type_synonym stix_obj = "(string \<times> json) list"

datatype pyval =
    PNone
  | PStr string
  | PInt int
  | PBool bool
  | PList "string list"
  | PJson stix_obj

type_synonym pydict = "string \<rightharpoonup> pyval"

text \<open>\<^verbatim>\<open>s.split(",")\<close>: the pieces between the separators; never the empty list.\<close>

fun str_split :: "char \<Rightarrow> string \<Rightarrow> string list" where
  "str_split sep [] = [[]]"
| "str_split sep (c # cs) =
     (if c = sep then [] # str_split sep cs
      else (case str_split sep cs of
              w # ws \<Rightarrow> (c # w) # ws
            | [] \<Rightarrow> [[c]]))"

text \<open>\<^verbatim>\<open>sep.join(xs)\<close>.\<close>

fun str_join :: "string \<Rightarrow> string list \<Rightarrow> string" where
  "str_join sep [] = []"
| "str_join sep [x] = x"
| "str_join sep (x # y # ys) = x @ sep @ str_join sep (y # ys)"

text \<open>
  \<^verbatim>\<open>sep.join(xs)\<close> on a list of Python values: an item that is not a string raises
  TypeError.
\<close>

fun is_str :: "json \<Rightarrow> bool" where
  "is_str (JString s) = True"
| "is_str v = False"

fun the_str :: "json \<Rightarrow> string" where
  "the_str (JString s) = s"
| "the_str v = []"

definition py_join :: "string \<Rightarrow> json list \<Rightarrow> error + string" where
  "py_join sep xs =
     (if list_all is_str xs then Inr (str_join sep (map the_str xs)) else Inl TypeError)"

text \<open>\<^verbatim>\<open>d.setdefault(k, v)\<close>: the value under \<open>k\<close>, which is set to \<open>v\<close> only when the key is absent.\<close>

definition setdefault :: "pydict \<Rightarrow> string \<Rightarrow> pyval \<Rightarrow> pyval \<times> pydict" where
  "setdefault d k v = (case d k of Some w \<Rightarrow> (w, d) | None \<Rightarrow> (v, d(k \<mapsto> v)))"

definition py_opt :: "string option \<Rightarrow> pyval" where
  "py_opt v = (case v of None \<Rightarrow> PNone | Some s \<Rightarrow> PStr s)"

section \<open>The tables\<close>

text \<open>
  One record per mapped class, one field per \<^verbatim>\<open>Column\<close>. A column that may hold NULL
  and is read by the code is an option. \<^verbatim>\<open>Objects\<close> has the composite primary key
  \<open>(id, modified)\<close> and a foreign key to \<^verbatim>\<open>collections.id\<close>.
\<close>

record objects_row =
  obj_id :: string
  obj_type :: "string option"
  obj_date_added :: string
  obj_collection :: string
  obj_object :: stix_obj
  obj_revoked :: bool
  obj_created :: "string option"
  obj_modified :: string

record collections_row =
  col_id :: string
  col_title :: "string option"
  col_description :: "string option"
  col_media_types :: "string option"
  col_api_root :: "string option"

record status_row =
  st_id :: string
  st_status :: string
  st_request_timestamp :: string
  st_total_count :: int
  st_success_count :: int
  st_failure_count :: int
  st_pending_count :: int
  st_successes :: string
  st_failures :: string
  st_pendings :: string

record db =
  tbl_collections :: "collections_row list"
  tbl_objects :: "objects_row list"
  tbl_status :: "status_row list"

text \<open>
  \<^verbatim>\<open>ObjDict.to_dict\<close> copies every attribute whose name does not start with an underscore:
  for a row loaded from the database, one key per column, a NULL as \<^verbatim>\<open>None\<close>.
\<close>

definition Collections_to_dict :: "collections_row \<Rightarrow> pydict" where
  "Collections_to_dict c =
     [''id'' \<mapsto> PStr (col_id c),
      ''title'' \<mapsto> py_opt (col_title c),
      ''description'' \<mapsto> py_opt (col_description c),
      ''media_types'' \<mapsto> py_opt (col_media_types c),
      ''api_root'' \<mapsto> py_opt (col_api_root c)]"

definition Status_to_dict :: "status_row \<Rightarrow> pydict" where
  "Status_to_dict s =
     [''id'' \<mapsto> PStr (st_id s),
      ''status'' \<mapsto> PStr (st_status s),
      ''request_timestamp'' \<mapsto> PStr (st_request_timestamp s),
      ''total_count'' \<mapsto> PInt (st_total_count s),
      ''success_count'' \<mapsto> PInt (st_success_count s),
      ''failure_count'' \<mapsto> PInt (st_failure_count s),
      ''pending_count'' \<mapsto> PInt (st_pending_count s),
      ''successes'' \<mapsto> PStr (st_successes s),
      ''failures'' \<mapsto> PStr (st_failures s),
      ''pendings'' \<mapsto> PStr (st_pendings s)]"

definition Objects_to_dict :: "objects_row \<Rightarrow> pydict" where
  "Objects_to_dict r =
     [''id'' \<mapsto> PStr (obj_id r),
      ''type'' \<mapsto> py_opt (obj_type r),
      ''date_added'' \<mapsto> PStr (obj_date_added r),
      ''collection'' \<mapsto> PStr (obj_collection r),
      ''object'' \<mapsto> PJson (obj_object r),
      ''revoked'' \<mapsto> PBool (obj_revoked r),
      ''created'' \<mapsto> py_opt (obj_created r),
      ''modified'' \<mapsto> PStr (obj_modified r)]"

text \<open>
  A row of \<^verbatim>\<open>Collections\<close> as the database stores it when it is created with the given
  attributes: a \<^verbatim>\<open>media_types\<close> left out takes the column's
  \<^verbatim>\<open>server_default='application/vnd.oasis.stix+json'\<close>.
\<close>

definition Collections :: "string \<Rightarrow> string option \<Rightarrow> string option \<Rightarrow> string option \<Rightarrow> string option \<Rightarrow> collections_row" where
  "Collections i title description media_types api_root =
     \<lparr>col_id = i, col_title = title, col_description = description,
      col_media_types = (case media_types of
                           None \<Rightarrow> Some ''application/vnd.oasis.stix+json''
                         | Some m \<Rightarrow> Some m),
      col_api_root = api_root\<rparr>"

section \<open>Collection detail\<close>

text \<open>
  \<^verbatim>\<open>get_collection\<close>: the first row with the given id, or \<^verbatim>\<open>None\<close>. The value under
  \<^verbatim>\<open>media_types\<close> is split at commas; \<^verbatim>\<open>None.split\<close> raises AttributeError.
\<close>

definition get_collection :: "db \<Rightarrow> string \<Rightarrow> string \<Rightarrow> error + pydict option" where
  "get_collection d api_root collection_id =
     (case filter (\<lambda>c. col_id c = collection_id) (tbl_collections d) of
        [] \<Rightarrow> Inr None
      | query # _ \<Rightarrow>
          (case setdefault (Collections_to_dict query) ''media_types''
                  (PStr ''application/vnd.oasis.stix+json; version=2.0'') of
             (PStr s, d1) \<Rightarrow>
               Inr (Some (d1(''media_types'' \<mapsto> PList (str_split CHR '','' s),
                             ''can_read'' \<mapsto> PBool True,
                             ''can_write'' \<mapsto> PBool True)))
           | (_, d1) \<Rightarrow> Inl AttributeError))"

section \<open>The session: adding a row and committing\<close>

text \<open>
  The instance \<^verbatim>\<open>new\<close> that the constructor call \<^verbatim>\<open>Objects(...)\<close> builds: its attributes
  hold the Python values they were given.
\<close>

record objects_new =
  new_id :: json
  new_collection :: string
  new_date_added :: string
  new_type :: json
  new_object :: stix_obj
  new_created :: json
  new_modified :: json

text \<open>
  A value bound to a character column of the INSERT statement. A string is stored as it
  is and \<^verbatim>\<open>None\<close> as NULL. What the database does with any other value (store the text it
  casts the value to, or refuse the statement) is the parameter \<open>cast\<close>.
\<close>

datatype bound = Refused | Null | Text string

fun bind_param :: "(json \<Rightarrow> string option) \<Rightarrow> json \<Rightarrow> bound" where
  "bind_param cast JNull = Null"
| "bind_param cast (JString s) = Text s"
| "bind_param cast v = (case cast v of None \<Rightarrow> Refused | Some s \<Rightarrow> Text s)"

fun nullable :: "bound \<Rightarrow> string option" where
  "nullable (Text s) = Some s"
| "nullable b = None"

text \<open>
  The row the database stores for an instance, if any: the primary key columns \<open>id\<close> and
  \<open>modified\<close> cannot be NULL, and no column takes a refused value.
\<close>

definition row_of :: "(json \<Rightarrow> string option) \<Rightarrow> objects_new \<Rightarrow> objects_row option" where
  "row_of cast new =
     (case (bind_param cast (new_id new), bind_param cast (new_modified new)) of
        (Text i, Text m) \<Rightarrow>
          (if bind_param cast (new_type new) = Refused \<or> bind_param cast (new_created new) = Refused
           then None
           else Some \<lparr>obj_id = i, obj_type = nullable (bind_param cast (new_type new)),
                      obj_date_added = new_date_added new,
                      obj_collection = new_collection new,
                      obj_object = new_object new, obj_revoked = False,
                      obj_created = nullable (bind_param cast (new_created new)),
                      obj_modified = m\<rparr>)
      | _ \<Rightarrow> None)"

text \<open>
  \<^verbatim>\<open>session.add(x); session.commit()\<close> for one new instance. The database refuses it, and
  the mapper raises a \<^verbatim>\<open>DBAPIError\<close>, when it has no row for the instance or a declared
  constraint is violated: the primary key \<open>(id, modified)\<close> of \<^verbatim>\<open>objects\<close> is taken, its
  collection is no row of \<^verbatim>\<open>collections\<close>, or the primary key \<open>id\<close> of \<^verbatim>\<open>status\<close> is
  taken. Every other storage fault (a value too long for its column, a lost connection)
  is the parameter \<open>fault\<close>, a predicate on the database and the instance. A refused
  instance leaves the tables as they were; the row of an accepted one is the table's last
  row.
\<close>

datatype pending = NewObject objects_new | NewStatus status_row

fun commit ::
  "(json \<Rightarrow> string option) \<Rightarrow> (db \<Rightarrow> pending \<Rightarrow> bool) \<Rightarrow> db \<Rightarrow> pending \<Rightarrow> dbapi_error + db" where
  "commit cast fault d (NewObject new) =
     (case row_of cast new of
        None \<Rightarrow> Inl OtherDBAPIError
      | Some r \<Rightarrow>
          (if list_ex (\<lambda>x. obj_id x = obj_id r \<and> obj_modified x = obj_modified r) (tbl_objects d)
           then Inl IntegrityError
           else if \<not> list_ex (\<lambda>c. col_id c = obj_collection r) (tbl_collections d)
           then Inl IntegrityError
           else if fault d (NewObject new) then Inl OtherDBAPIError
           else Inr (d\<lparr>tbl_objects := tbl_objects d @ [r]\<rparr>)))"
| "commit cast fault d (NewStatus s) =
     (if list_ex (\<lambda>x. st_id x = st_id s) (tbl_status d) then Inl IntegrityError
      else if fault d (NewStatus s) then Inl OtherDBAPIError
      else Inr (d\<lparr>tbl_status := tbl_status d @ [s]\<rparr>))"

section \<open>Batch ingest\<close>

text \<open>\<^verbatim>\<open>new_obj[k]\<close> on the submitted dictionary: a missing key raises KeyError.\<close>

definition getitem :: "stix_obj \<Rightarrow> string \<Rightarrow> error + json" where
  "getitem new_obj k = (case map_of new_obj k of None \<Rightarrow> Inl (KeyError k) | Some v \<Rightarrow> Inr v)"

text \<open>
  The constructor call \<^verbatim>\<open>Objects(id=new_obj["id"], collection=id', date_added=request_time,
  type=new_obj["type"], object=new_obj, created=new_obj["created"],
  modified=new_obj["modified"])\<close>, its arguments evaluated from left to right.
\<close>

definition Objects :: "string \<Rightarrow> string \<Rightarrow> stix_obj \<Rightarrow> error + objects_new" where
  "Objects id' request_time new_obj =
     (case getitem new_obj ''id'' of Inl e \<Rightarrow> Inl e | Inr i \<Rightarrow>
      (case getitem new_obj ''type'' of Inl e \<Rightarrow> Inl e | Inr t \<Rightarrow>
       (case getitem new_obj ''created'' of Inl e \<Rightarrow> Inl e | Inr c \<Rightarrow>
        (case getitem new_obj ''modified'' of Inl e \<Rightarrow> Inl e | Inr m \<Rightarrow>
           Inr \<lparr>new_id = i, new_collection = id', new_date_added = request_time,
                new_type = t, new_object = new_obj, new_created = c, new_modified = m\<rparr>))))"

text \<open>
  The loop of \<^verbatim>\<open>add_objects\<close> over \<^verbatim>\<open>objs["objects"]\<close>, with the lists
  \<^verbatim>\<open>successes\<close> and \<^verbatim>\<open>failures\<close> and the counter \<^verbatim>\<open>failed\<close> it updates; both lists
  take \<^verbatim>\<open>new_obj["id"]\<close>, whatever value it is. Only a \<^verbatim>\<open>DBAPIError\<close> is caught; a
  KeyError of the constructor call leaves the loop and the method, with the rows committed
  so far in the database.
\<close>

fun add_loop ::
  "(json \<Rightarrow> string option) \<Rightarrow> (db \<Rightarrow> pending \<Rightarrow> bool) \<Rightarrow> string \<Rightarrow> string \<Rightarrow> stix_obj list \<Rightarrow> db \<Rightarrow>
   json list \<Rightarrow> json list \<Rightarrow> int \<Rightarrow> db \<times> (error + json list \<times> json list \<times> int)" where
  "add_loop cast fault id' request_time [] d successes failures failed =
     (d, Inr (successes, failures, failed))"
| "add_loop cast fault id' request_time (new_obj # rest) d successes failures failed =
     (case Objects id' request_time new_obj of
        Inl e \<Rightarrow> (d, Inl e)
      | Inr new \<Rightarrow>
          (case commit cast fault d (NewObject new) of
             Inr d' \<Rightarrow>
               add_loop cast fault id' request_time rest d' (successes @ [new_id new]) failures
                 failed
           | Inl e \<Rightarrow>
               add_loop cast fault id' request_time rest d successes (failures @ [new_id new])
                 (failed + 1)))"

text \<open>
  Modelled from the spec: \<^verbatim>\<open>generate_status\<close> of \<^verbatim>\<open>medallion.utils.common\<close> is not among
  the sources. The spec's StatusRecord has an id generated per ingest call (here the
  argument \<open>status_id\<close>), the status, the request timestamp, the three counts the caller
  passes with \<open>total_count\<close> their sum, and the delimited strings of ids the caller
  passes; \<^verbatim>\<open>add_objects\<close> passes no \<^verbatim>\<open>pendings\<close>.
\<close>

definition generate_status ::
  "string \<Rightarrow> string \<Rightarrow> string \<Rightarrow> int \<Rightarrow> int \<Rightarrow> int \<Rightarrow> string \<Rightarrow> string \<Rightarrow> status_row" where
  "generate_status status_id request_time status succeeded failed pending successes_ids failures =
     \<lparr>st_id = status_id, st_status = status, st_request_timestamp = request_time,
      st_total_count = succeeded + failed + pending,
      st_success_count = succeeded, st_failure_count = failed, st_pending_count = pending,
      st_successes = successes_ids, st_failures = failures, st_pendings = []\<rparr>"

text \<open>\<^verbatim>\<open>_put_status\<close>: the status row is added and committed; a \<^verbatim>\<open>DBAPIError\<close> is logged and rolled back.\<close>

definition put_status ::
  "(json \<Rightarrow> string option) \<Rightarrow> (db \<Rightarrow> pending \<Rightarrow> bool) \<Rightarrow> db \<Rightarrow> status_row \<Rightarrow> db" where
  "put_status cast fault d status =
     (case commit cast fault d (NewStatus status) of Inr d' \<Rightarrow> d' | Inl e \<Rightarrow> d)"

text \<open>
  \<^verbatim>\<open>add_objects\<close>. The local \<^verbatim>\<open>succeeded\<close> and \<^verbatim>\<open>pending\<close> are set to 0 and never
  assigned again. After the loop, outside any \<^verbatim>\<open>try\<close>, the ids of the successes are
  joined with the empty string and then those of the failures with a comma; a TypeError
  of a join leaves the method with the committed rows in the database and no status.
\<close>

definition add_objects ::
  "(json \<Rightarrow> string option) \<Rightarrow> (db \<Rightarrow> pending \<Rightarrow> bool) \<Rightarrow> string \<Rightarrow> db \<Rightarrow> string \<Rightarrow> string \<Rightarrow>
   (string \<rightharpoonup> stix_obj list) \<Rightarrow> string \<Rightarrow> db \<times> (error + status_row)" where
  "add_objects cast fault status_id d api_root id' objs request_time =
     (case objs ''objects'' of
        None \<Rightarrow> (d, Inl (KeyError ''objects''))
      | Some batch \<Rightarrow>
          (case add_loop cast fault id' request_time batch d [] [] 0 of
             (d', Inl e) \<Rightarrow> (d', Inl e)
           | (d', Inr (successes, failures, failed)) \<Rightarrow>
               (case py_join [] successes of
                  Inl e \<Rightarrow> (d', Inl e)
                | Inr successes_ids \<Rightarrow>
                    (case py_join '','' failures of
                       Inl e \<Rightarrow> (d', Inl e)
                     | Inr failures_ids \<Rightarrow>
                         (let succeeded = 0; pending = 0;
                              status = generate_status status_id request_time ''complete''
                                         succeeded failed pending successes_ids failures_ids
                          in (put_status cast fault d' status, Inr status))))))"

section \<open>Status lookup\<close>

definition split_or_empty :: "string \<Rightarrow> string list" where
  "split_or_empty str = (if str = [] then [] else str_split CHR '','' str)"

definition get_status :: "db \<Rightarrow> string \<Rightarrow> string \<Rightarrow> pydict option" where
  "get_status d api_root status_id =
     (case filter (\<lambda>s. st_id s = status_id) (tbl_status d) of
        [] \<Rightarrow> None
      | status # _ \<Rightarrow>
          Some ((Status_to_dict status)
                  (''pendings'' \<mapsto> PList (split_or_empty (st_pendings status)),
                   ''failures'' \<mapsto> PList (split_or_empty (st_failures status)),
                   ''successes'' \<mapsto> PList (split_or_empty (st_successes status)))))"

section \<open>Object reads\<close>

text \<open>
  Modelled from the spec: \<^verbatim>\<open>create_bundle\<close> of \<^verbatim>\<open>medallion.utils.common\<close> is not among
  the sources. The spec's bundle is the batch of objects returned together as a read
  result.
\<close>

datatype 'a stix_bundle = Bundle "'a list"

definition create_bundle :: "'a list \<Rightarrow> 'a stix_bundle" where
  "create_bundle objects = Bundle objects"

text \<open>
  \<^verbatim>\<open>get_object\<close>: the rows with the given object id, the latest \<^verbatim>\<open>date_added\<close> first,
  and \<^verbatim>\<open>query[0]\<close> of that list, which raises IndexError when the list is empty. Rows
  with the same \<^verbatim>\<open>date_added\<close> stay in table order (the database leaves their order
  open).
\<close>

definition get_object ::
  "db \<Rightarrow> string \<Rightarrow> string \<Rightarrow> string \<Rightarrow> 'f \<Rightarrow> 'g \<Rightarrow> error + pydict stix_bundle" where
  "get_object d api_root collection_id object_id filter_args allowed_filters =
     (case rev (sort_key obj_date_added
                  (rev (filter (\<lambda>r. obj_id r = object_id) (tbl_objects d)))) of
        [] \<Rightarrow> Inl IndexError
      | q # _ \<Rightarrow> Inr (create_bundle [Objects_to_dict q]))"

text \<open>
  \<^verbatim>\<open>get_object_manifest\<close>: one pass over the rows \<open>(id, date_added, modified)\<close> of the
  whole \<^verbatim>\<open>objects\<close> table, in table order. The dictionary \<^verbatim>\<open>maker\<close> keeps its keys in
  the order of their first insertion, so it is an association list here.
\<close>

record manifest_entry =
  man_id :: string
  man_date_added :: string
  man_versions :: "string list"
  man_media_types :: "string list"

fun manifest_loop ::
  "(string \<times> string \<times> string) list \<Rightarrow> (string \<times> manifest_entry) list \<Rightarrow>
   (string \<times> manifest_entry) list" where
  "manifest_loop [] maker = maker"
| "manifest_loop ((q0, q1, q2) # query) maker =
     (case map_of maker q0 of
        None \<Rightarrow>
          manifest_loop query
            (maker @ [(q0, \<lparr>man_id = q0, man_date_added = q1, man_versions = [q2],
                             man_media_types = [''application/vnd.oasis.stix+json; version=2.0'']\<rparr>)])
      | Some test \<Rightarrow>
          manifest_loop query
            (map (\<lambda>(k, e). if k = q0 then (k, e\<lparr>man_versions := man_versions e @ [q2]\<rparr>) else (k, e))
               maker))"

definition get_object_manifest ::
  "db \<Rightarrow> string \<Rightarrow> string \<Rightarrow> 'f \<Rightarrow> 'g \<Rightarrow> manifest_entry list" where
  "get_object_manifest d api_root collection_id filter_args allowed_filters =
     map snd (manifest_loop
                (map (\<lambda>r. (obj_id r, obj_date_added r, obj_modified r)) (tbl_objects d)) [])"

text \<open>
  \<^verbatim>\<open>get_objects\<close> sends one grouped statement:
  \<^verbatim>\<open>SELECT id, object, max(modified) FROM objects GROUP BY id ORDER BY modified\<close>.
  PostgreSQL, the only database the backend connects to, accepts a grouped statement
  only if every column it selects or orders by outside an aggregate is a grouping column,
  or the grouping columns hold the table's whole primary key; otherwise the statement is
  refused with a ProgrammingError, which \<^verbatim>\<open>get_objects\<close> does not catch. An accepted
  statement yields one row per group, whose plain columns are the same in every row of
  the group.
\<close>

datatype column = Id | Type | Date_added | Collection | Object | Revoked | Created | Modified

definition Objects_primary_key :: "column list" where
  "Objects_primary_key = [Id, Modified]"

definition grouped_ok :: "column list \<Rightarrow> column list \<Rightarrow> column list \<Rightarrow> bool" where
  "grouped_ok plain_cols group_cols order_cols =
     (list_all (\<lambda>c. c \<in> set group_cols) (plain_cols @ order_cols)
      \<or> list_all (\<lambda>c. c \<in> set group_cols) Objects_primary_key)"

fun first_per_id :: "objects_row list \<Rightarrow> objects_row list" where
  "first_per_id [] = []"
| "first_per_id (r # rs) = r # first_per_id (filter (\<lambda>x. obj_id x \<noteq> obj_id r) rs)"

definition get_objects :: "db \<Rightarrow> string \<Rightarrow> string \<Rightarrow> 'f \<Rightarrow> 'g \<Rightarrow> error + stix_obj stix_bundle" where
  "get_objects d api_root collection_id filter_args allowed_filters =
     (if grouped_ok [Id, Object] [Id] [Modified]
      then Inr (create_bundle
                  (map obj_object (sort_key obj_modified (first_per_id (tbl_objects d)))))
      else Inl (DBAPIError ProgrammingError))"

section \<open>Notions used in the statements\<close>

text \<open>
  An item of a batch has the keys when it carries the four keys the constructor call
  reads, whatever their values; its id is a string when the value under \<^verbatim>\<open>id\<close> is one.
\<close>

definition has_keys :: "stix_obj \<Rightarrow> bool" where
  "has_keys new_obj =
     list_all (\<lambda>k. map_of new_obj k \<noteq> None) [''id'', ''type'', ''created'', ''modified'']"

definition str_id :: "stix_obj \<Rightarrow> bool" where
  "str_id new_obj = (case map_of new_obj ''id'' of None \<Rightarrow> False | Some v \<Rightarrow> is_str v)"

text \<open>
  The commits of a list of instances, one after the other: the database they leave, and
  for each instance whether the storage accepted it in the state the instances before it
  left.
\<close>

fun commit_each ::
  "(json \<Rightarrow> string option) \<Rightarrow> (db \<Rightarrow> pending \<Rightarrow> bool) \<Rightarrow> db \<Rightarrow> objects_new list \<Rightarrow> db \<times> bool list" where
  "commit_each cast fault d [] = (d, [])"
| "commit_each cast fault d (new # rest) =
     (case commit cast fault d (NewObject new) of
        Inr d' \<Rightarrow>
          (fst (commit_each cast fault d' rest), True # snd (commit_each cast fault d' rest))
      | Inl e \<Rightarrow>
          (fst (commit_each cast fault d rest), False # snd (commit_each cast fault d rest)))"

text \<open>Of a list with one flag per item: the items flagged true, and those flagged false, in order.\<close>

definition accepted :: "'a list \<Rightarrow> bool list \<Rightarrow> 'a list" where
  "accepted xs flags = map fst (filter snd (zip xs flags))"

definition rejected :: "'a list \<Rightarrow> bool list \<Rightarrow> 'a list" where
  "rejected xs flags = map fst (filter (\<lambda>p. \<not> snd p) (zip xs flags))"

text \<open>The distinct ids of a list, each at its first occurrence.\<close>

definition first_ids :: "string list \<Rightarrow> string list" where
  "first_ids ids = rev (remdups (rev ids))"

text \<open>The manifest entry of an id, read off the rows \<open>(id, date_added, modified)\<close>.\<close>

definition entry_of :: "(string \<times> string \<times> string) list \<Rightarrow> string \<Rightarrow> manifest_entry" where
  "entry_of query k =
     \<lparr>man_id = k,
      man_date_added = fst (snd (hd (filter (\<lambda>q. fst q = k) query))),
      man_versions = map (\<lambda>q. snd (snd q)) (filter (\<lambda>q. fst q = k) query),
      man_media_types = [''application/vnd.oasis.stix+json; version=2.0'']\<rparr>"

text \<open>The object ids stored under a collection, in table order.\<close>

definition ids_in_collection :: "db \<Rightarrow> string \<Rightarrow> string list" where
  "ids_in_collection d collection_id =
     map obj_id (filter (\<lambda>r. obj_collection r = collection_id) (tbl_objects d))"

text \<open>The number of rows of \<^verbatim>\<open>objects\<close> with a given primary key.\<close>

definition rows_with_key :: "db \<Rightarrow> string \<Rightarrow> string \<Rightarrow> nat" where
  "rows_with_key d i m =
     length (filter (\<lambda>x. obj_id x = i \<and> obj_modified x = m) (tbl_objects d))"

text \<open>The value under a key of the dictionary a lookup returns (\<^verbatim>\<open>None\<close> has no keys).\<close>

definition status_field :: "string \<Rightarrow> pydict option \<Rightarrow> pyval option" where
  "status_field k r = (case r of None \<Rightarrow> None | Some s \<Rightarrow> s k)"

definition collection_field :: "string \<Rightarrow> error + pydict option \<Rightarrow> error + pyval option" where
  "collection_field k r = (case r of Inl e \<Rightarrow> Inl e | Inr c \<Rightarrow> Inr (status_field k c))"

subsection \<open>Concrete states\<close>

text \<open>
  A storage that casts numbers and booleans to text and refuses arrays and objects, and
  that refuses an instance only for a violated constraint; a database with two
  collections, the first created without media types; a submitted object with the four
  required keys and string values; one whose id is the number 5.
\<close>

fun example_cast :: "json \<Rightarrow> string option" where
  "example_cast (JNumber n) = Some n"
| "example_cast (JBool b) = Some (if b then ''true'' else ''false'')"
| "example_cast v = None"

definition no_fault :: "db \<Rightarrow> pending \<Rightarrow> bool" where
  "no_fault d p = False"

definition example_db :: db where
  "example_db =
     \<lparr>tbl_collections = [Collections ''c1'' None None None None,
                         Collections ''c2'' None None (Some ''text/plain,text/html'') None],
      tbl_objects = [], tbl_status = []\<rparr>"

definition stix :: "string \<Rightarrow> string \<Rightarrow> stix_obj" where
  "stix i m =
     [(''id'', JString i), (''type'', JString ''indicator''), (''created'', JString ''t0''),
      (''modified'', JString m)]"

definition numbered :: stix_obj where
  "numbered =
     [(''id'', JNumber ''5''), (''type'', JString ''indicator''), (''created'', JString ''t0''),
      (''modified'', JString ''t1'')]"

text \<open>Three versions of \<open>x\<close> and one of \<open>y\<close>, ingested into the first collection in one batch.\<close>

definition three_and_one :: db where
  "three_and_one =
     fst (add_objects example_cast no_fault ''s1'' example_db ''r'' ''c1''
            [''objects'' \<mapsto> [stix ''x'' ''t1'', stix ''x'' ''t2'', stix ''y'' ''t1'', stix ''x'' ''t3'']]
            ''now'')"

text \<open>
  Three calls: \<open>x\<close> at \<open>t1\<close> into the first collection with request time \<open>2\<close>, \<open>x\<close> at
  \<open>t2\<close> into the first collection with request time \<open>1\<close>, \<open>y\<close> into the second collection.
\<close>

definition two_collections :: db where
  "two_collections =
     fst (add_objects example_cast no_fault ''s3''
       (fst (add_objects example_cast no_fault ''s2''
          (fst (add_objects example_cast no_fault ''s1'' example_db ''r'' ''c1''
                  [''objects'' \<mapsto> [stix ''x'' ''t1'']] ''2''))
          ''r'' ''c1'' [''objects'' \<mapsto> [stix ''x'' ''t2'']] ''1''))
       ''r'' ''c2'' [''objects'' \<mapsto> [stix ''y'' ''t1'']] ''3'')"

text \<open>The first collection after one call that ingests \<open>x\<close> at \<open>t1\<close>.\<close>

definition one_object :: db where
  "one_object =
     fst (add_objects example_cast no_fault ''s1'' example_db ''r'' ''c1''
            [''objects'' \<mapsto> [stix ''x'' ''t1'']] ''now'')"

section \<open>Facts about the helpers\<close>

lemmas example_defs =
  Let_def add_objects_def Objects_def getitem_def generate_status_def put_status_def
  py_join_def row_of_def commit.simps no_fault_def example_db_def stix_def numbered_def
  Collections_def

subsection \<open>The constructor call and the commit\<close>

lemma has_keys_Objects:
  "has_keys new_obj \<Longrightarrow> \<exists>new. Objects id' t new_obj = Inr new"
  by (auto simp: has_keys_def Objects_def getitem_def)

lemma Objects_has_keys:
  "Objects id' t new_obj = Inr new \<Longrightarrow> has_keys new_obj"
  by (auto simp: has_keys_def Objects_def getitem_def split: option.splits)

lemma no_keys_Objects:
  "\<not> has_keys new_obj \<Longrightarrow> \<exists>k. Objects id' t new_obj = Inl (KeyError k)"
  by (auto simp: has_keys_def Objects_def getitem_def split: option.splits)

lemma Objects_fields:
  "Objects id' t new_obj = Inr new \<Longrightarrow>
     map_of new_obj ''id'' = Some (new_id new) \<and>
     map_of new_obj ''modified'' = Some (new_modified new) \<and>
     new_collection new = id' \<and> new_date_added new = t \<and> new_object new = new_obj"
  by (auto simp: Objects_def getitem_def split: option.splits)

lemma has_keys_instances:
  "list_all has_keys batch \<Longrightarrow>
   \<exists>news. list_all2 (\<lambda>new_obj new. Objects id' t new_obj = Inr new) batch news"
proof (induction batch)
  case Nil
  then show ?case by simp
next
  case (Cons a batch)
  then obtain news
    where "list_all2 (\<lambda>new_obj new. Objects id' t new_obj = Inr new) batch news"
    by auto
  moreover obtain new where "Objects id' t a = Inr new"
    using Cons.prems has_keys_Objects by fastforce
  ultimately
  have "list_all2 (\<lambda>new_obj new. Objects id' t new_obj = Inr new) (a # batch) (new # news)"
    by simp
  then show ?case by blast
qed

lemma str_ids_instances:
  "list_all2 (\<lambda>new_obj new. Objects id' t new_obj = Inr new) batch news \<Longrightarrow>
   list_all str_id batch = list_all is_str (map new_id news)"
proof (induction batch news rule: list_all2_induct)
  case Nil
  then show ?case by simp
next
  case (Cons new_obj batch new news)
  from Cons.hyps(1) have "str_id new_obj = is_str (new_id new)"
    using Objects_fields [of id' t new_obj new] by (simp add: str_id_def)
  with Cons.IH show ?case by simp
qed

lemma commit_object_accepted:
  "commit cast fault d (NewObject new) = Inr d' \<Longrightarrow>
   \<exists>r. row_of cast new = Some r \<and> d' = d\<lparr>tbl_objects := tbl_objects d @ [r]\<rparr>"
  by (auto split: option.splits if_splits)

lemma commit_object_fresh:
  "commit cast fault d (NewObject new) = Inr d' \<Longrightarrow> row_of cast new = Some r \<Longrightarrow>
   \<not> list_ex (\<lambda>x. obj_id x = obj_id r \<and> obj_modified x = obj_modified r) (tbl_objects d)"
  by (auto split: option.splits if_splits)

lemma commit_object_refused:
  "row_of cast new = Some r \<Longrightarrow>
   list_ex (\<lambda>x. obj_id x = obj_id r \<and> obj_modified x = obj_modified r) (tbl_objects d) \<Longrightarrow>
   commit cast fault d (NewObject new) = Inl IntegrityError"
  by simp

lemma put_status_objects:
  "tbl_objects (put_status cast fault d status) = tbl_objects d"
  by (auto simp: put_status_def split: sum.splits if_splits)

lemma put_status_status:
  "tbl_status (put_status cast fault d status) = tbl_status d \<or>
   tbl_status (put_status cast fault d status) = tbl_status d @ [status]"
  by (auto simp: put_status_def split: sum.splits if_splits)

subsection \<open>The ingest loop\<close>

text \<open>
  On a batch whose items have the four keys the loop ends normally: it commits the
  instances one after the other, appends the ids of the accepted ones to \<open>successes\<close>
  and those of the refused ones to \<open>failures\<close>, and counts the latter in \<open>failed\<close>. At the
  first item without the keys it stops with the KeyError of the constructor call.
\<close>

declare commit.simps [simp del]

lemma length_commit_each:
  "length (snd (commit_each cast fault d news)) = length news"
proof (induction news arbitrary: d)
  case Nil
  then show ?case by simp
next
  case (Cons new news)
  show ?case
  proof (cases "commit cast fault d (NewObject new)")
    case (Inl e)
    with Cons.IH [of d] show ?thesis by simp
  next
    case (Inr d')
    with Cons.IH [of d'] show ?thesis by simp
  qed
qed

lemma commit_each_rows:
  "tbl_objects (fst (commit_each cast fault d news)) =
     tbl_objects d @ List.map_filter (row_of cast) (accepted news (snd (commit_each cast fault d news)))"
proof (induction news arbitrary: d)
  case Nil
  then show ?case by (simp add: accepted_def List.map_filter_simps)
next
  case (Cons new news)
  show ?case
  proof (cases "commit cast fault d (NewObject new)")
    case (Inl e)
    with Cons.IH [of d] show ?thesis
      by (simp add: accepted_def)
  next
    case (Inr d')
    then obtain r where r: "row_of cast new = Some r" "d' = d\<lparr>tbl_objects := tbl_objects d @ [r]\<rparr>"
      using commit_object_accepted by blast
    with Inr Cons.IH [of d'] show ?thesis
      by (simp add: accepted_def List.map_filter_simps)
  qed
qed

lemma commit_each_other_tables:
  "tbl_status (fst (commit_each cast fault d news)) = tbl_status d \<and>
   tbl_collections (fst (commit_each cast fault d news)) = tbl_collections d"
proof (induction news arbitrary: d)
  case Nil
  then show ?case by simp
next
  case (Cons new news)
  show ?case
  proof (cases "commit cast fault d (NewObject new)")
    case (Inl e)
    with Cons.IH [of d] show ?thesis by simp
  next
    case (Inr d')
    then obtain r where "d' = d\<lparr>tbl_objects := tbl_objects d @ [r]\<rparr>"
      using commit_object_accepted by blast
    with Inr Cons.IH [of d'] show ?thesis by simp
  qed
qed

lemma add_loop_commit_each:
  assumes "list_all2 (\<lambda>new_obj new. Objects id' t new_obj = Inr new) batch news"
  shows "add_loop cast fault id' t batch d successes failures failed =
           (fst (commit_each cast fault d news),
            Inr (successes @ map new_id (accepted news (snd (commit_each cast fault d news))),
                 failures @ map new_id (rejected news (snd (commit_each cast fault d news))),
                 failed + int (length (rejected news (snd (commit_each cast fault d news))))))"
  using assms
proof (induction batch news arbitrary: d successes failures failed rule: list_all2_induct)
  case Nil
  then show ?case by (simp add: accepted_def rejected_def)
next
  case (Cons new_obj batch new news)
  show ?case
  proof (cases "commit cast fault d (NewObject new)")
    case (Inl e)
    with Cons.hyps(1) Cons.IH [of d successes "failures @ [new_id new]" "failed + 1"]
    show ?thesis by (simp add: accepted_def rejected_def)
  next
    case (Inr d')
    with Cons.hyps(1) Cons.IH [of d' "successes @ [new_id new]" failures failed]
    show ?thesis by (simp add: accepted_def rejected_def)
  qed
qed

lemma add_loop_raises:
  assumes "list_all2 (\<lambda>new_obj new. Objects id' t new_obj = Inr new) pre news"
    and "Objects id' t bad = Inl e"
  shows "add_loop cast fault id' t (pre @ bad # post) d successes failures failed =
           (fst (commit_each cast fault d news), Inl e)"
  using assms
proof (induction pre news arbitrary: d successes failures failed rule: list_all2_induct)
  case Nil
  then show ?case by simp
next
  case (Cons new_obj pre new news)
  show ?case
  proof (cases "commit cast fault d (NewObject new)")
    case (Inl e')
    with Cons.hyps(1) Cons.IH [OF Cons.prems, of d successes "failures @ [new_id new]" "failed + 1"]
    show ?thesis by simp
  next
    case (Inr d')
    with Cons.hyps(1) Cons.IH [OF Cons.prems, of d' "successes @ [new_id new]" failures failed]
    show ?thesis by simp
  qed
qed

lemma first_without_keys:
  "\<not> list_all has_keys batch \<Longrightarrow>
   \<exists>pre bad post. batch = pre @ bad # post \<and> list_all has_keys pre \<and> \<not> has_keys bad"
proof -
  assume "\<not> list_all has_keys batch"
  then have "\<exists>x \<in> set batch. \<not> has_keys x" by (simp add: list_all_iff)
  from split_list_first_prop [OF this]
  obtain pre bad post where "batch = pre @ bad # post" "\<not> has_keys bad" "\<forall>y \<in> set pre. \<not> \<not> has_keys y"
    by blast
  then show ?thesis by (auto simp: list_all_iff)
qed

lemma accepted_rejected_set:
  "length flags = length xs \<Longrightarrow> set (accepted xs flags) \<union> set (rejected xs flags) = set xs"
proof (induction xs flags rule: list_induct2')
  case (4 x xs f flags)
  then show ?case by (cases f) (auto simp: accepted_def rejected_def)
qed (simp_all add: accepted_def rejected_def)

lemma all_str_accepted_rejected:
  "length flags = length xs \<Longrightarrow>
   list_all is_str (map new_id xs) =
     (list_all is_str (map new_id (accepted xs flags)) \<and>
      list_all is_str (map new_id (rejected xs flags)))"
  using accepted_rejected_set [of flags xs] by (auto simp: list_all_iff)

subsection \<open>Joining and splitting\<close>

lemma str_split_piece:
  "CHR '','' \<notin> set x \<Longrightarrow>
   str_split CHR '','' (x @ CHR '','' # rest) = x # str_split CHR '','' rest"
  by (induction x) auto

lemma str_split_single:
  "CHR '','' \<notin> set x \<Longrightarrow> str_split CHR '','' x = [x]"
  by (induction x) auto

lemma str_split_join:
  "list_all (\<lambda>x. CHR '','' \<notin> set x) xs \<Longrightarrow> xs \<noteq> [] \<Longrightarrow>
   str_split CHR '','' (str_join '','' xs) = xs"
  by (induction "'',''" xs rule: str_join.induct) (auto simp: str_split_piece str_split_single)

lemma str_join_empty:
  "str_join '','' xs = [] \<longleftrightarrow> xs = [] \<or> xs = [[]]"
  by (induction "'',''" xs rule: str_join.induct) auto

lemma split_or_empty_join:
  "list_all (\<lambda>x. CHR '','' \<notin> set x) xs \<Longrightarrow> xs \<noteq> [[]] \<Longrightarrow>
   split_or_empty (str_join '','' xs) = xs"
  by (auto simp: split_or_empty_def str_join_empty str_split_join)

subsection \<open>The key of a stored row\<close>

lemma row_of_key:
  "row_of cast new = Some r \<Longrightarrow>
   bind_param cast (new_id new) = Text (obj_id r) \<and>
   bind_param cast (new_modified new) = Text (obj_modified r)"
  by (auto simp: row_of_def split: bound.splits if_splits)

lemma row_of_same_key:
  "row_of cast new = Some r \<Longrightarrow>
   new_id new2 = new_id new \<Longrightarrow> new_modified new2 = new_modified new \<Longrightarrow>
   new_type new2 = new_type new \<Longrightarrow> new_created new2 = new_created new \<Longrightarrow>
   \<exists>r2. row_of cast new2 = Some r2 \<and> obj_id r2 = obj_id r \<and> obj_modified r2 = obj_modified r"
  by (auto simp: row_of_def split: bound.splits if_splits)

lemma Objects_same_values:
  "Objects id' t new_obj = Inr new \<Longrightarrow>
   \<exists>new2. Objects id2 t2 new_obj = Inr new2 \<and> new_id new2 = new_id new \<and>
          new_modified new2 = new_modified new \<and> new_type new2 = new_type new \<and>
          new_created new2 = new_created new"
  by (auto simp: Objects_def getitem_def split: option.splits)

subsection \<open>The ingest call\<close>

text \<open>The three ways \<^verbatim>\<open>add_objects\<close> ends on a batch.\<close>

lemma add_objects_returns:
  assumes "objs ''objects'' = Some batch"
    and "list_all2 (\<lambda>new_obj new. Objects id' t new_obj = Inr new) batch news"
    and "list_all str_id batch"
    and "commit_each cast fault d news = (d1, flags)"
  shows "\<exists>status.
           add_objects cast fault sid d api_root id' objs t
             = (put_status cast fault d1 status, Inr status) \<and>
           status = generate_status sid t ''complete'' 0 (int (length (rejected news flags))) 0
                      (str_join [] (map the_str (map new_id (accepted news flags))))
                      (str_join '','' (map the_str (map new_id (rejected news flags))))"
proof -
  have len: "length flags = length news"
    using length_commit_each [of cast fault d news] assms(4) by simp
  have "list_all is_str (map new_id news)"
    using str_ids_instances [OF assms(2)] assms(3) by simp
  then have strs: "list_all is_str (map new_id (accepted news flags))"
    "list_all is_str (map new_id (rejected news flags))"
    using all_str_accepted_rejected [OF len] by auto
  show ?thesis
    using assms(1,4) strs add_loop_commit_each [OF assms(2), of cast fault d "[]" "[]" 0]
    by (simp add: add_objects_def py_join_def Let_def)
qed

lemma add_objects_type_error:
  assumes "objs ''objects'' = Some batch"
    and "list_all2 (\<lambda>new_obj new. Objects id' t new_obj = Inr new) batch news"
    and "\<not> list_all str_id batch"
  shows "add_objects cast fault sid d api_root id' objs t
           = (fst (commit_each cast fault d news), Inl TypeError)"
proof -
  have len: "length (snd (commit_each cast fault d news)) = length news"
    by (rule length_commit_each)
  have "\<not> list_all is_str (map new_id news)"
    using str_ids_instances [OF assms(2)] assms(3) by simp
  then have "\<not> (list_all is_str (map new_id (accepted news (snd (commit_each cast fault d news)))) \<and>
                list_all is_str (map new_id (rejected news (snd (commit_each cast fault d news)))))"
    using all_str_accepted_rejected [OF len] by simp
  then show ?thesis
    using assms(1) add_loop_commit_each [OF assms(2), of cast fault d "[]" "[]" 0]
    by (auto simp: add_objects_def py_join_def Let_def)
qed

lemma add_objects_key_error:
  assumes "objs ''objects'' = Some (pre @ bad # post)"
    and "list_all2 (\<lambda>new_obj new. Objects id' t new_obj = Inr new) pre news"
    and "Objects id' t bad = Inl e"
  shows "add_objects cast fault sid d api_root id' objs t
           = (fst (commit_each cast fault d news), Inl e)"
  using assms(1) add_loop_raises [OF assms(2,3), of cast fault post d "[]" "[]" 0]
  by (simp add: add_objects_def)

text \<open>Whatever the batch, the status that \<^verbatim>\<open>add_objects\<close> returns counts no success.\<close>

lemma add_objects_counts:
  "add_objects cast fault sid d api_root id' objs t = (d', Inr status) \<Longrightarrow>
   st_success_count status = 0 \<and> st_pending_count status = 0 \<and>
   st_total_count status = st_failure_count status"
  by (auto simp: add_objects_def Let_def generate_status_def
           split: option.splits sum.splits prod.splits)

subsection \<open>The manifest loop\<close>

lemma first_ids_snoc:
  "first_ids (ids @ [x]) = (if x \<in> set ids then first_ids ids else first_ids ids @ [x])"
  by (simp add: first_ids_def)

lemma set_first_ids: "set (first_ids ids) = set ids"
  by (simp add: first_ids_def)

lemma distinct_first_ids: "distinct (first_ids ids)"
  by (simp add: first_ids_def)

lemma manifest_loop_append:
  "manifest_loop (xs @ ys) maker = manifest_loop ys (manifest_loop xs maker)"
  by (induction xs maker rule: manifest_loop.induct) (auto split: option.splits)

lemma map_of_keyed:
  "map_of (map (\<lambda>k. (k, f k)) ks) x = (if x \<in> set ks then Some (f x) else None)"
  by (induction ks) auto

text \<open>Started on the empty dictionary, the loop yields one entry per id, at the id's first occurrence.\<close>

lemma manifest_loop_closed:
  "manifest_loop query [] = map (\<lambda>k. (k, entry_of query k)) (first_ids (map fst query))"
proof (induction query rule: rev_induct)
  case Nil
  then show ?case by (simp add: first_ids_def)
next
  case (snoc q query)
  obtain q0 q1 q2 where q: "q = (q0, q1, q2)" by (cases q)
  let ?ids = "first_ids (map fst query)"
  have step: "manifest_loop (query @ [q]) [] =
                manifest_loop [q] (map (\<lambda>k. (k, entry_of query k)) ?ids)"
    using snoc.IH by (simp add: manifest_loop_append)
  show ?case
  proof (cases "q0 \<in> set (map fst query)")
    case True
    then have nonempty: "filter (\<lambda>x. fst x = q0) query \<noteq> []"
      by (auto simp: filter_empty_conv)
    have "\<And>k. k \<in> set ?ids \<Longrightarrow>
            (if k = q0
             then (k, (entry_of query k)\<lparr>man_versions := man_versions (entry_of query k) @ [q2]\<rparr>)
             else (k, entry_of query k)) = (k, entry_of (query @ [q]) k)"
      using nonempty by (auto simp: entry_of_def q)
    then have "map (\<lambda>(k, e). if k = q0 then (k, e\<lparr>man_versions := man_versions e @ [q2]\<rparr>)
                              else (k, e))
                 (map (\<lambda>k. (k, entry_of query k)) ?ids)
               = map (\<lambda>k. (k, entry_of (query @ [q]) k)) ?ids"
      by (simp add: comp_def)
    then show ?thesis
      using True step by (simp add: q map_of_keyed set_first_ids first_ids_snoc)
  next
    case False
    then have empty: "filter (\<lambda>x. fst x = q0) query = []"
      by (auto simp: filter_empty_conv)
    have same: "\<And>k. k \<in> set ?ids \<Longrightarrow> entry_of (query @ [q]) k = entry_of query k"
      using False by (auto simp: entry_of_def q set_first_ids)
    have new: "entry_of (query @ [q]) q0 =
                 \<lparr>man_id = q0, man_date_added = q1, man_versions = [q2],
                  man_media_types = [''application/vnd.oasis.stix+json; version=2.0'']\<rparr>"
      using empty by (simp add: entry_of_def q)
    show ?thesis
      using False step same new by (simp add: q map_of_keyed set_first_ids first_ids_snoc)
  qed
qed

lemma get_object_manifest_closed:
  "get_object_manifest d api_root collection_id fa af =
     map (\<lambda>k. \<lparr>man_id = k,
                man_date_added = obj_date_added (hd (filter (\<lambda>r. obj_id r = k) (tbl_objects d))),
                man_versions = map obj_modified (filter (\<lambda>r. obj_id r = k) (tbl_objects d)),
                man_media_types = [''application/vnd.oasis.stix+json; version=2.0'']\<rparr>)
         (first_ids (map obj_id (tbl_objects d)))"
proof -
  let ?q = "\<lambda>r. (obj_id r, obj_date_added r, obj_modified r)"
  have f: "\<And>k. filter (\<lambda>q. fst q = k) (map ?q (tbl_objects d)) =
                map ?q (filter (\<lambda>r. obj_id r = k) (tbl_objects d))"
    by (simp add: filter_map comp_def)
  have "\<And>k. k \<in> set (map obj_id (tbl_objects d)) \<Longrightarrow>
            filter (\<lambda>r. obj_id r = k) (tbl_objects d) \<noteq> []"
    by (auto simp: filter_empty_conv)
  then have "\<And>k. k \<in> set (first_ids (map obj_id (tbl_objects d))) \<Longrightarrow>
          entry_of (map ?q (tbl_objects d)) k =
          \<lparr>man_id = k,
           man_date_added = obj_date_added (hd (filter (\<lambda>r. obj_id r = k) (tbl_objects d))),
           man_versions = map obj_modified (filter (\<lambda>r. obj_id r = k) (tbl_objects d)),
           man_media_types = [''application/vnd.oasis.stix+json; version=2.0'']\<rparr>"
    by (simp add: entry_of_def f hd_map set_first_ids comp_def)
  then show ?thesis
    by (simp add: get_object_manifest_def manifest_loop_closed comp_def)
qed

lemma hd_filter_least:
  fixes f :: "'a \<Rightarrow> string"
  assumes "sorted (map f xs)" and "r \<in> set xs" and "P r"
  shows "f (hd (filter P xs)) \<le> f r"
proof -
  have s: "sorted (map f (filter P xs))"
    using assms(1) by (simp add: sorted_filter)
  from assms(2,3) have r: "r \<in> set (filter P xs)" by simp
  then obtain y ys where ys: "filter P xs = y # ys"
    by (cases "filter P xs") auto
  with s r show ?thesis by auto
qed

subsection \<open>The lookups\<close>

lemma get_collection_found:
  "filter (\<lambda>c. col_id c = cid) (tbl_collections d) = q # qs \<Longrightarrow>
   col_media_types q = Some s \<Longrightarrow>
   get_collection d api_root cid =
     Inr (Some ((Collections_to_dict q)(''media_types'' \<mapsto> PList (str_split CHR '','' s),
                 ''can_read'' \<mapsto> PBool True, ''can_write'' \<mapsto> PBool True)))"
  by (simp add: get_collection_def setdefault_def Collections_to_dict_def py_opt_def)

text \<open>A row whose \<^verbatim>\<open>media_types\<close> is NULL makes the read raise: the key is present, so the default is not taken.\<close>

lemma get_collection_null_media_types:
  "filter (\<lambda>c. col_id c = cid) (tbl_collections d) = q # qs \<Longrightarrow>
   col_media_types q = None \<Longrightarrow>
   get_collection d api_root cid = Inl AttributeError"
  by (simp add: get_collection_def setdefault_def Collections_to_dict_def py_opt_def)

lemma get_collection_unknown:
  "filter (\<lambda>c. col_id c = cid) (tbl_collections d) = [] \<Longrightarrow>
   get_collection d api_root cid = Inr None"
  by (simp add: get_collection_def)

lemma get_status_unknown:
  "filter (\<lambda>s. st_id s = status_id) (tbl_status d) = [] \<Longrightarrow>
   get_status d api_root status_id = None"
  by (simp add: get_status_def)

lemma get_object_unknown:
  "filter (\<lambda>r. obj_id r = object_id) (tbl_objects d) = [] \<Longrightarrow>
   get_object d api_root collection_id object_id fa af = Inl IndexError"
  by (simp add: get_object_def)

lemma get_objects_refused:
  "get_objects d api_root collection_id fa af = Inl (DBAPIError ProgrammingError)"
  by (simp add: get_objects_def grouped_ok_def Objects_primary_key_def)

section \<open>The claims\<close>

subsection \<open>C1: ingesting the same version twice\<close>

text \<open>
  C1, as the code has it. A second ingest of an object with the same \<open>(id, modified)\<close>
  stores no second row, but it is not a success: the pair is the primary key of
  \<^verbatim>\<open>objects\<close>, the insert raises, and the \<^verbatim>\<open>except DBAPIError\<close> branch records a
  failure. If a first call with the single object returns a status that reports no
  failure, then the object's id is a string, its \<^verbatim>\<open>modified\<close> is stored as some text, and
  any later call with that object (whatever the collection, request time or other faults)
  returns a status with \<open>failure_count = 1\<close>, the id in \<open>failures\<close> and empty
  \<open>successes\<close>, leaves the table as it was, and the table holds exactly one row with that
  key.
\<close>

theorem reingest_same_version_fails:
  assumes first:
    "add_objects cast fault sid d api_root id' [''objects'' \<mapsto> [new_obj]] t = (d1, Inr status1)"
    and ok: "st_failure_count status1 = 0"
  shows "\<exists>i m d2 status2.
           map_of new_obj ''id'' = Some (JString i) \<and>
           map_option (bind_param cast) (map_of new_obj ''modified'') = Some (Text m) \<and>
           add_objects cast fault2 sid2 d1 api_root2 id2 [''objects'' \<mapsto> [new_obj]] t2
             = (d2, Inr status2) \<and>
           st_failure_count status2 = 1 \<and> st_failures status2 = i \<and>
           st_successes status2 = [] \<and>
           tbl_objects d2 = tbl_objects d1 \<and>
           rows_with_key d2 i m = 1"
proof -
  from first obtain new where new: "Objects id' t new_obj = Inr new"
    by (auto simp: add_objects_def split: sum.splits)
  from first ok new obtain d' where d': "commit cast fault d (NewObject new) = Inr d'"
    by (cases "commit cast fault d (NewObject new)")
       (auto simp: add_objects_def Let_def generate_status_def py_join_def split: if_splits)
  from first new d' have str: "is_str (new_id new)"
    by (auto simp: add_objects_def Let_def py_join_def split: if_splits)
  then obtain i where i: "new_id new = JString i" by (cases "new_id new") auto
  from d' obtain r where r: "row_of cast new = Some r"
    and d'_eq: "d' = d\<lparr>tbl_objects := tbl_objects d @ [r]\<rparr>"
    using commit_object_accepted by blast
  from row_of_key [OF r] i have key: "obj_id r = i"
    "bind_param cast (new_modified new) = Text (obj_modified r)" by auto
  have fresh:
    "\<not> list_ex (\<lambda>x. obj_id x = obj_id r \<and> obj_modified x = obj_modified r) (tbl_objects d)"
    using d' r by (rule commit_object_fresh)
  from first new d' i have "d1 = put_status cast fault d' status1"
    by (auto simp: add_objects_def Let_def py_join_def split: if_splits)
  then have objs1: "tbl_objects d1 = tbl_objects d @ [r]"
    using d'_eq by (simp add: put_status_objects)
  have one: "rows_with_key d1 i (obj_modified r) = 1"
  proof -
    have "filter (\<lambda>x. obj_id x = i \<and> obj_modified x = obj_modified r) (tbl_objects d) = []"
      using fresh key(1) by (auto simp: list_ex_iff filter_empty_conv)
    then show ?thesis using objs1 key(1) by (simp add: rows_with_key_def)
  qed
  from Objects_same_values [OF new, of id2 t2]
  obtain new2 where new2: "Objects id2 t2 new_obj = Inr new2"
    and same: "new_id new2 = new_id new" "new_modified new2 = new_modified new"
      "new_type new2 = new_type new" "new_created new2 = new_created new"
    by blast
  from row_of_same_key [OF r same]
  obtain r2 where r2: "row_of cast new2 = Some r2"
    and key2: "obj_id r2 = obj_id r" "obj_modified r2 = obj_modified r"
    by blast
  have "list_ex (\<lambda>x. obj_id x = obj_id r2 \<and> obj_modified x = obj_modified r2) (tbl_objects d1)"
    using objs1 key2 by (simp add: list_ex_iff)
  with r2 have refused: "commit cast fault2 d1 (NewObject new2) = Inl IntegrityError"
    by (rule commit_object_refused)
  have fields: "map_of new_obj ''id'' = Some (JString i)"
    "map_option (bind_param cast) (map_of new_obj ''modified'') = Some (Text (obj_modified r))"
    using Objects_fields [OF new] i key(2) by auto
  show ?thesis
    using fields new2 same(1) i refused one
    by (intro exI [of _ i] exI [of _ "obj_modified r"])
       (simp add: add_objects_def Let_def generate_status_def put_status_objects py_join_def
          rows_with_key_def)
qed

text \<open>The theorem at the object \<open>x\<close> of version \<open>t1\<close>, ingested twice into the first collection.\<close>

theorem reingest_same_version_fails_witness:
  "st_failure_count
      (generate_status ''s1'' ''now'' ''complete'' 0 0 0 ''x'' []) = 0 \<and>
   (\<exists>d2 status2.
      add_objects example_cast no_fault ''s2'' one_object ''r'' ''c1''
        [''objects'' \<mapsto> [stix ''x'' ''t1'']] ''later''
        = (d2, Inr status2) \<and>
      st_failure_count status2 = 1 \<and> st_failures status2 = ''x'' \<and>
      st_successes status2 = [] \<and>
      tbl_objects d2 = tbl_objects one_object \<and>
      rows_with_key d2 ''x'' ''t1'' = 1)"
proof -
  have first: "add_objects example_cast no_fault ''s1'' example_db ''r'' ''c1''
                 [''objects'' \<mapsto> [stix ''x'' ''t1'']] ''now''
               = (one_object, Inr (generate_status ''s1'' ''now'' ''complete'' 0 0 0 ''x'' []))"
    by (simp add: one_object_def example_defs)
  have ok: "st_failure_count (generate_status ''s1'' ''now'' ''complete'' 0 0 0 ''x'' []) = 0"
    by (simp add: generate_status_def)
  from reingest_same_version_fails [OF first ok, of no_fault "''s2''" "''r''" "''c1''" "''later''"]
  obtain i m d2 status2 where
    i: "map_of (stix ''x'' ''t1'') ''id'' = Some (JString i)"
    and m: "map_option (bind_param example_cast) (map_of (stix ''x'' ''t1'') ''modified'')
              = Some (Text m)"
    and second: "add_objects example_cast no_fault ''s2'' one_object ''r'' ''c1''
        [''objects'' \<mapsto> [stix ''x'' ''t1'']] ''later'' = (d2, Inr status2)"
      "st_failure_count status2 = 1" "st_failures status2 = i" "st_successes status2 = []"
      "tbl_objects d2 = tbl_objects one_object" "rows_with_key d2 i m = 1"
    by blast
  from i have "i = ''x''" by (simp add: stix_def)
  moreover from m have "m = ''t1''" by (simp add: stix_def)
  ultimately show ?thesis using ok second by blast
qed

text \<open>The claim as stated fails: the second of two identical calls reports a failure and no success.\<close>

theorem reingest_second_call_not_success:
  "snd (add_objects example_cast no_fault ''s2'' one_object ''r'' ''c1''
          [''objects'' \<mapsto> [stix ''x'' ''t1'']] ''later'')
   = Inr \<lparr>st_id = ''s2'', st_status = ''complete'', st_request_timestamp = ''later'',
          st_total_count = 1, st_success_count = 0, st_failure_count = 1,
          st_pending_count = 0, st_successes = [], st_failures = ''x'', st_pendings = []\<rparr>"
  by (simp add: one_object_def example_defs)

subsection \<open>C2: the counts of a status\<close>

text \<open>
  C2 at a batch of one new, well-formed object. The loop appends the id to
  \<open>successes\<close> but \<^verbatim>\<open>succeeded\<close> is never incremented, so the status has
  \<open>success_count = 0\<close> and \<open>total_count = 0\<close> while \<open>successes\<close> holds one id and the batch
  has one item.
\<close>

theorem success_count_not_incremented:
  "snd (add_objects example_cast no_fault ''s1'' example_db ''r'' ''c1''
          [''objects'' \<mapsto> [stix ''x'' ''t1'']] ''now'')
   = Inr \<lparr>st_id = ''s1'', st_status = ''complete'', st_request_timestamp = ''now'',
          st_total_count = 0, st_success_count = 0, st_failure_count = 0,
          st_pending_count = 0, st_successes = ''x'', st_failures = [], st_pendings = []\<rparr>"
  by (simp add: example_defs)

subsection \<open>C3: faults of single items\<close>

text \<open>
  C3, as the code has it. For a batch under the key \<^verbatim>\<open>objects\<close> there are three cases.
  If every item has the four keys and a string as its id, \<^verbatim>\<open>add_objects\<close> returns a
  status, whatever the storage refuses: the instances are committed one after the other,
  the rows of the accepted ones are appended to the table, and the refused ones, and only
  they, are listed in \<open>failures\<close> and counted in \<open>failure_count\<close>. If every item has the
  four keys but some id is not a string, the items are committed all the same and then a
  join raises TypeError: no status is returned. If some item lacks a key, the items before
  the first such item are committed, the constructor call raises KeyError for it, and the
  items after it are not processed: the code validates nothing and catches only
  \<^verbatim>\<open>DBAPIError\<close>.
\<close>

theorem storage_faults_stay_local:
  assumes "objs ''objects'' = Some batch"
  shows "(list_all has_keys batch \<and> list_all str_id batch \<longrightarrow>
           (\<exists>news d1 flags status.
              list_all2 (\<lambda>new_obj new. Objects id' t new_obj = Inr new) batch news \<and>
              commit_each cast fault d news = (d1, flags) \<and>
              add_objects cast fault sid d api_root id' objs t
                = (put_status cast fault d1 status, Inr status) \<and>
              tbl_objects d1 = tbl_objects d @ List.map_filter (row_of cast) (accepted news flags) \<and>
              st_status status = ''complete'' \<and>
              st_failures status = str_join '','' (map the_str (map new_id (rejected news flags))) \<and>
              st_failure_count status = int (length (rejected news flags))))
       \<and> (list_all has_keys batch \<and> \<not> list_all str_id batch \<longrightarrow>
           (\<exists>news.
              list_all2 (\<lambda>new_obj new. Objects id' t new_obj = Inr new) batch news \<and>
              add_objects cast fault sid d api_root id' objs t
                = (fst (commit_each cast fault d news), Inl TypeError)))
       \<and> (\<not> list_all has_keys batch \<longrightarrow>
           (\<exists>pre bad post news k.
              batch = pre @ bad # post \<and>
              list_all2 (\<lambda>new_obj new. Objects id' t new_obj = Inr new) pre news \<and>
              Objects id' t bad = Inl (KeyError k) \<and>
              add_objects cast fault sid d api_root id' objs t
                = (fst (commit_each cast fault d news), Inl (KeyError k))))"
proof (intro conjI impI)
  assume a: "list_all has_keys batch \<and> list_all str_id batch"
  then obtain news
    where news: "list_all2 (\<lambda>new_obj new. Objects id' t new_obj = Inr new) batch news"
    using has_keys_instances by blast
  obtain d1 flags where run: "commit_each cast fault d news = (d1, flags)"
    by (cases "commit_each cast fault d news")
  from a have ids: "list_all str_id batch" by simp
  from add_objects_returns [where objs = objs, OF assms news ids run, of sid api_root]
  obtain status where st:
    "add_objects cast fault sid d api_root id' objs t = (put_status cast fault d1 status, Inr status)"
    "status = generate_status sid t ''complete'' 0 (int (length (rejected news flags))) 0
                      (str_join [] (map the_str (map new_id (accepted news flags))))
                      (str_join '','' (map the_str (map new_id (rejected news flags))))"
    by blast
  have rows: "tbl_objects d1 = tbl_objects d @ List.map_filter (row_of cast) (accepted news flags)"
    using commit_each_rows [of cast fault d news] run by simp
  show "\<exists>news d1 flags status.
              list_all2 (\<lambda>new_obj new. Objects id' t new_obj = Inr new) batch news \<and>
              commit_each cast fault d news = (d1, flags) \<and>
              add_objects cast fault sid d api_root id' objs t
                = (put_status cast fault d1 status, Inr status) \<and>
              tbl_objects d1 = tbl_objects d @ List.map_filter (row_of cast) (accepted news flags) \<and>
              st_status status = ''complete'' \<and>
              st_failures status = str_join '','' (map the_str (map new_id (rejected news flags))) \<and>
              st_failure_count status = int (length (rejected news flags))"
    using news run st(1) rows
    by (intro exI [of _ news] exI [of _ d1] exI [of _ flags] exI [of _ status])
       (simp add: st(2) generate_status_def)
next
  assume a: "list_all has_keys batch \<and> \<not> list_all str_id batch"
  then obtain news
    where news: "list_all2 (\<lambda>new_obj new. Objects id' t new_obj = Inr new) batch news"
    using has_keys_instances by blast
  from add_objects_type_error [where objs = objs, OF assms news, of cast fault sid d api_root] a news
  show "\<exists>news.
              list_all2 (\<lambda>new_obj new. Objects id' t new_obj = Inr new) batch news \<and>
              add_objects cast fault sid d api_root id' objs t
                = (fst (commit_each cast fault d news), Inl TypeError)"
    by blast
next
  assume "\<not> list_all has_keys batch"
  then obtain pre bad post
    where split: "batch = pre @ bad # post" "list_all has_keys pre" "\<not> has_keys bad"
    using first_without_keys by blast
  obtain news
    where news: "list_all2 (\<lambda>new_obj new. Objects id' t new_obj = Inr new) pre news"
    using split(2) has_keys_instances by blast
  obtain k where k: "Objects id' t bad = Inl (KeyError k)"
    using split(3) no_keys_Objects by blast
  from add_objects_key_error [OF _ news k, of objs post cast fault sid d api_root] assms split(1)
  have "add_objects cast fault sid d api_root id' objs t
          = (fst (commit_each cast fault d news), Inl (KeyError k))"
    by simp
  with split(1) news k
  show "\<exists>pre bad post news k.
              batch = pre @ bad # post \<and>
              list_all2 (\<lambda>new_obj new. Objects id' t new_obj = Inr new) pre news \<and>
              Objects id' t bad = Inl (KeyError k) \<and>
              add_objects cast fault sid d api_root id' objs t
                = (fst (commit_each cast fault d news), Inl (KeyError k))"
    by blast
qed

text \<open>
  The theorem at a batch whose second item repeats the first (a primary-key violation),
  at a batch whose second item has the number 5 as its id, and at a batch whose second
  item lacks \<^verbatim>\<open>type\<close>.
\<close>

theorem storage_faults_stay_local_witness:
  "(list_all has_keys [stix ''a'' ''t1'', stix ''a'' ''t1'', stix ''b'' ''t1''] \<and>
    list_all str_id [stix ''a'' ''t1'', stix ''a'' ''t1'', stix ''b'' ''t1'']) \<and>
   (\<exists>d' status.
      add_objects example_cast no_fault ''s1'' example_db ''r'' ''c1''
        [''objects'' \<mapsto> [stix ''a'' ''t1'', stix ''a'' ''t1'', stix ''b'' ''t1'']] ''now''
        = (d', Inr status) \<and>
      st_status status = ''complete'') \<and>
   map obj_id (tbl_objects (fst
      (add_objects example_cast no_fault ''s1'' example_db ''r'' ''c1''
         [''objects'' \<mapsto> [stix ''a'' ''t1'', stix ''a'' ''t1'', stix ''b'' ''t1'']] ''now'')))
     = [''a'', ''b''] \<and>
   (list_all has_keys [stix ''a'' ''t1'', numbered, stix ''b'' ''t1''] \<and>
    \<not> list_all str_id [stix ''a'' ''t1'', numbered, stix ''b'' ''t1'']) \<and>
   snd (add_objects example_cast no_fault ''s1'' example_db ''r'' ''c1''
          [''objects'' \<mapsto> [stix ''a'' ''t1'', numbered, stix ''b'' ''t1'']] ''now'')
     = Inl TypeError \<and>
   \<not> list_all has_keys [stix ''a'' ''t1'', [(''id'', JString ''m'')], stix ''b'' ''t1''] \<and>
   (\<exists>k. snd (add_objects example_cast no_fault ''s1'' example_db ''r'' ''c1''
          [''objects'' \<mapsto> [stix ''a'' ''t1'', [(''id'', JString ''m'')], stix ''b'' ''t1'']] ''now'')
     = Inl (KeyError k))"
proof -
  have ok: "list_all has_keys [stix ''a'' ''t1'', stix ''a'' ''t1'', stix ''b'' ''t1''] \<and>
    list_all str_id [stix ''a'' ''t1'', stix ''a'' ''t1'', stix ''b'' ''t1'']"
    by (simp add: has_keys_def str_id_def stix_def)
  have num: "list_all has_keys [stix ''a'' ''t1'', numbered, stix ''b'' ''t1''] \<and>
    \<not> list_all str_id [stix ''a'' ''t1'', numbered, stix ''b'' ''t1'']"
    by (simp add: has_keys_def str_id_def stix_def numbered_def)
  have bad: "\<not> list_all has_keys [stix ''a'' ''t1'', [(''id'', JString ''m'')], stix ''b'' ''t1'']"
    by (simp add: has_keys_def stix_def)
  have rows: "map obj_id (tbl_objects (fst
      (add_objects example_cast no_fault ''s1'' example_db ''r'' ''c1''
         [''objects'' \<mapsto> [stix ''a'' ''t1'', stix ''a'' ''t1'', stix ''b'' ''t1'']] ''now'')))
     = [''a'', ''b'']"
    by (simp add: example_defs)
  from storage_faults_stay_local
         [of "[''objects'' \<mapsto> [stix ''a'' ''t1'', stix ''a'' ''t1'', stix ''b'' ''t1'']]"
             "[stix ''a'' ''t1'', stix ''a'' ''t1'', stix ''b'' ''t1'']"
             "''c1''" "''now''" example_cast no_fault example_db "''s1''" "''r''"]
       ok
  have one: "\<exists>d' status.
      add_objects example_cast no_fault ''s1'' example_db ''r'' ''c1''
        [''objects'' \<mapsto> [stix ''a'' ''t1'', stix ''a'' ''t1'', stix ''b'' ''t1'']] ''now''
        = (d', Inr status) \<and>
      st_status status = ''complete''"
    by fastforce
  from storage_faults_stay_local
         [of "[''objects'' \<mapsto> [stix ''a'' ''t1'', numbered, stix ''b'' ''t1'']]"
             "[stix ''a'' ''t1'', numbered, stix ''b'' ''t1'']"
             "''c1''" "''now''" example_cast no_fault example_db "''s1''" "''r''"]
       num
  have two: "snd (add_objects example_cast no_fault ''s1'' example_db ''r'' ''c1''
          [''objects'' \<mapsto> [stix ''a'' ''t1'', numbered, stix ''b'' ''t1'']] ''now'')
     = Inl TypeError"
    by fastforce
  from storage_faults_stay_local
         [of "[''objects'' \<mapsto> [stix ''a'' ''t1'', [(''id'', JString ''m'')], stix ''b'' ''t1'']]"
             "[stix ''a'' ''t1'', [(''id'', JString ''m'')], stix ''b'' ''t1'']"
             "''c1''" "''now''" example_cast no_fault example_db "''s1''" "''r''"]
       bad
  have three: "\<exists>k. snd (add_objects example_cast no_fault ''s1'' example_db ''r'' ''c1''
          [''objects'' \<mapsto> [stix ''a'' ''t1'', [(''id'', JString ''m'')], stix ''b'' ''t1'']] ''now'')
     = Inl (KeyError k)"
    by fastforce
  from ok one rows num two bad three show ?thesis by blast
qed

text \<open>
  The claim as stated fails at a batch whose second item lacks \<^verbatim>\<open>type\<close>: the call raises
  KeyError, the first item's row is stored and the third item is never processed. It
  fails too at a batch whose second item has the number 5 as its id: all three rows are
  stored, the call raises TypeError and no status is stored or returned.
\<close>

theorem malformed_item_raises:
  "snd (add_objects example_cast no_fault ''s1'' example_db ''r'' ''c1''
          [''objects'' \<mapsto> [stix ''a'' ''t1'', [(''id'', JString ''m'')], stix ''b'' ''t1'']] ''now'')
     = Inl (KeyError ''type'') \<and>
   map obj_id (tbl_objects
     (fst (add_objects example_cast no_fault ''s1'' example_db ''r'' ''c1''
             [''objects'' \<mapsto> [stix ''a'' ''t1'', [(''id'', JString ''m'')], stix ''b'' ''t1'']]
             ''now'')))
     = [''a''] \<and>
   snd (add_objects example_cast no_fault ''s1'' example_db ''r'' ''c1''
          [''objects'' \<mapsto> [stix ''a'' ''t1'', numbered, stix ''b'' ''t1'']] ''now'')
     = Inl TypeError \<and>
   map obj_id (tbl_objects
     (fst (add_objects example_cast no_fault ''s1'' example_db ''r'' ''c1''
             [''objects'' \<mapsto> [stix ''a'' ''t1'', numbered, stix ''b'' ''t1'']] ''now'')))
     = [''a'', ''5'', ''b''] \<and>
   tbl_status
     (fst (add_objects example_cast no_fault ''s1'' example_db ''r'' ''c1''
             [''objects'' \<mapsto> [stix ''a'' ''t1'', numbered, stix ''b'' ''t1'']] ''now''))
     = []"
  by (simp add: example_defs)

subsection \<open>C4: the order of the outcome lists\<close>

text \<open>
  C4, as the code has it. For a batch under the key \<^verbatim>\<open>objects\<close> whose items all have the
  four keys and a string as their id, the lists \<open>successes\<close> and \<open>failures\<close> that the
  loop builds are the ids of the accepted and of the refused instances, each in batch
  order, where the instances are committed one after the other and the rows of the
  accepted ones are appended to the table; the status is returned, its \<open>failures\<close> field
  is the comma-join of the refused ids, and splitting it as the status lookup does gives
  that list back when no such id holds a comma and the list is not the single empty id.
  For every other batch (an item lacks a key, or an id is not a string) the call raises
  and no status results.
\<close>

theorem outcome_lists_in_batch_order:
  assumes "objs ''objects'' = Some batch"
  shows "(list_all has_keys batch \<and> list_all str_id batch \<longrightarrow>
           (\<exists>news d1 flags d' status.
              list_all2 (\<lambda>new_obj new. Objects id' t new_obj = Inr new) batch news \<and>
              list_all is_str (map new_id news) \<and>
              commit_each cast fault d news = (d1, flags) \<and>
              add_loop cast fault id' t batch d [] [] 0 =
                (d1, Inr (map new_id (accepted news flags), map new_id (rejected news flags),
                          int (length (rejected news flags)))) \<and>
              tbl_objects d1 = tbl_objects d @ List.map_filter (row_of cast) (accepted news flags) \<and>
              add_objects cast fault sid d api_root id' objs t = (d', Inr status) \<and>
              st_failures status = str_join '','' (map the_str (map new_id (rejected news flags))) \<and>
              (list_all (\<lambda>x. CHR '','' \<notin> set x) (map the_str (map new_id (rejected news flags))) \<and>
               map the_str (map new_id (rejected news flags)) \<noteq> [[]] \<longrightarrow>
                 split_or_empty (st_failures status)
                   = map the_str (map new_id (rejected news flags)))))
       \<and> (\<not> (list_all has_keys batch \<and> list_all str_id batch) \<longrightarrow>
           (\<exists>d' e. add_objects cast fault sid d api_root id' objs t = (d', Inl e)))"
proof (intro conjI impI)
  assume a: "list_all has_keys batch \<and> list_all str_id batch"
  then obtain news
    where news: "list_all2 (\<lambda>new_obj new. Objects id' t new_obj = Inr new) batch news"
    using has_keys_instances by blast
  obtain d1 flags where run: "commit_each cast fault d news = (d1, flags)"
    by (cases "commit_each cast fault d news")
  have strs: "list_all is_str (map new_id news)"
    using str_ids_instances [OF news] a by simp
  from a have ids: "list_all str_id batch" by simp
  from add_objects_returns [where objs = objs, OF assms news ids run, of sid api_root]
  obtain status where st:
    "add_objects cast fault sid d api_root id' objs t = (put_status cast fault d1 status, Inr status)"
    "status = generate_status sid t ''complete'' 0 (int (length (rejected news flags))) 0
                      (str_join [] (map the_str (map new_id (accepted news flags))))
                      (str_join '','' (map the_str (map new_id (rejected news flags))))"
    by blast
  have rows: "tbl_objects d1 = tbl_objects d @ List.map_filter (row_of cast) (accepted news flags)"
    using commit_each_rows [of cast fault d news] run by simp
  have loop: "add_loop cast fault id' t batch d [] [] 0 =
                (d1, Inr (map new_id (accepted news flags), map new_id (rejected news flags),
                          int (length (rejected news flags))))"
    using add_loop_commit_each [OF news, of cast fault d "[]" "[]" 0] run by simp
  show "\<exists>news d1 flags d' status.
              list_all2 (\<lambda>new_obj new. Objects id' t new_obj = Inr new) batch news \<and>
              list_all is_str (map new_id news) \<and>
              commit_each cast fault d news = (d1, flags) \<and>
              add_loop cast fault id' t batch d [] [] 0 =
                (d1, Inr (map new_id (accepted news flags), map new_id (rejected news flags),
                          int (length (rejected news flags)))) \<and>
              tbl_objects d1 = tbl_objects d @ List.map_filter (row_of cast) (accepted news flags) \<and>
              add_objects cast fault sid d api_root id' objs t = (d', Inr status) \<and>
              st_failures status = str_join '','' (map the_str (map new_id (rejected news flags))) \<and>
              (list_all (\<lambda>x. CHR '','' \<notin> set x) (map the_str (map new_id (rejected news flags))) \<and>
               map the_str (map new_id (rejected news flags)) \<noteq> [[]] \<longrightarrow>
                 split_or_empty (st_failures status)
                   = map the_str (map new_id (rejected news flags)))"
    using news strs run loop rows st(1)
    by (intro exI [of _ news] exI [of _ d1] exI [of _ flags]
              exI [of _ "put_status cast fault d1 status"] exI [of _ status])
       (simp add: st(2) generate_status_def split_or_empty_join)
next
  assume a: "\<not> (list_all has_keys batch \<and> list_all str_id batch)"
  show "\<exists>d' e. add_objects cast fault sid d api_root id' objs t = (d', Inl e)"
  proof (cases "list_all has_keys batch")
    case True
    then obtain news
      where news: "list_all2 (\<lambda>new_obj new. Objects id' t new_obj = Inr new) batch news"
      using has_keys_instances by blast
    from True a have "\<not> list_all str_id batch" by simp
    from add_objects_type_error [where objs = objs, OF assms news this, of cast fault sid d api_root]
    show ?thesis by blast
  next
    case False
    then obtain pre bad post
      where split: "batch = pre @ bad # post" "list_all has_keys pre" "\<not> has_keys bad"
      using first_without_keys by blast
    obtain news
      where news: "list_all2 (\<lambda>new_obj new. Objects id' t new_obj = Inr new) pre news"
      using split(2) has_keys_instances by blast
    obtain k where k: "Objects id' t bad = Inl (KeyError k)"
      using split(3) no_keys_Objects by blast
    from add_objects_key_error [OF _ news k, of objs post cast fault sid d api_root] assms split(1)
    show ?thesis by auto
  qed
qed

text \<open>
  The theorem at a batch of five items of which the second and the fourth repeat the
  first: the loop's lists are \<open>[a, b, c]\<close> and \<open>[a, a]\<close>, and the \<open>failures\<close> field splits
  to \<open>[a, a]\<close>; and at a batch whose second item has the number 5 as its id.
\<close>

theorem outcome_lists_in_batch_order_witness:
  "(list_all has_keys
      [stix ''a'' ''t1'', stix ''a'' ''t1'', stix ''b'' ''t1'', stix ''a'' ''t1'', stix ''c'' ''t1''] \<and>
    list_all str_id
      [stix ''a'' ''t1'', stix ''a'' ''t1'', stix ''b'' ''t1'', stix ''a'' ''t1'', stix ''c'' ''t1'']) \<and>
   snd (add_loop example_cast no_fault ''c1'' ''now''
          [stix ''a'' ''t1'', stix ''a'' ''t1'', stix ''b'' ''t1'', stix ''a'' ''t1'', stix ''c'' ''t1'']
          example_db [] [] 0)
     = Inr ([JString ''a'', JString ''b'', JString ''c''], [JString ''a'', JString ''a''], 2) \<and>
   (\<exists>d' status.
      add_objects example_cast no_fault ''s1'' example_db ''r'' ''c1''
        [''objects'' \<mapsto>
           [stix ''a'' ''t1'', stix ''a'' ''t1'', stix ''b'' ''t1'', stix ''a'' ''t1'', stix ''c'' ''t1'']]
        ''now'' = (d', Inr status) \<and>
      split_or_empty (st_failures status) = [''a'', ''a'']) \<and>
   \<not> (list_all has_keys [stix ''a'' ''t1'', numbered] \<and>
      list_all str_id [stix ''a'' ''t1'', numbered]) \<and>
   (\<exists>d' e. add_objects example_cast no_fault ''s1'' example_db ''r'' ''c1''
              [''objects'' \<mapsto> [stix ''a'' ''t1'', numbered]] ''now'' = (d', Inl e))"
proof -
  have ok: "list_all has_keys
      [stix ''a'' ''t1'', stix ''a'' ''t1'', stix ''b'' ''t1'', stix ''a'' ''t1'', stix ''c'' ''t1''] \<and>
    list_all str_id
      [stix ''a'' ''t1'', stix ''a'' ''t1'', stix ''b'' ''t1'', stix ''a'' ''t1'', stix ''c'' ''t1'']"
    by (simp add: has_keys_def str_id_def stix_def)
  have loop: "snd (add_loop example_cast no_fault ''c1'' ''now''
          [stix ''a'' ''t1'', stix ''a'' ''t1'', stix ''b'' ''t1'', stix ''a'' ''t1'', stix ''c'' ''t1'']
          example_db [] [] 0)
     = Inr ([JString ''a'', JString ''b'', JString ''c''], [JString ''a'', JString ''a''], 2)"
    by (simp add: example_defs)
  have run: "\<exists>d' status.
      add_objects example_cast no_fault ''s1'' example_db ''r'' ''c1''
        [''objects'' \<mapsto>
           [stix ''a'' ''t1'', stix ''a'' ''t1'', stix ''b'' ''t1'', stix ''a'' ''t1'', stix ''c'' ''t1'']]
        ''now'' = (d', Inr status) \<and>
      split_or_empty (st_failures status) = [''a'', ''a'']"
    by (simp add: example_defs split_or_empty_def)
  have num: "\<not> (list_all has_keys [stix ''a'' ''t1'', numbered] \<and>
      list_all str_id [stix ''a'' ''t1'', numbered])"
    by (simp add: has_keys_def str_id_def stix_def numbered_def)
  from outcome_lists_in_batch_order
         [of "[''objects'' \<mapsto>
                [stix ''a'' ''t1'', stix ''a'' ''t1'', stix ''b'' ''t1'', stix ''a'' ''t1'', stix ''c'' ''t1'']]"
             "[stix ''a'' ''t1'', stix ''a'' ''t1'', stix ''b'' ''t1'', stix ''a'' ''t1'', stix ''c'' ''t1'']"
             "''c1''" "''now''" example_cast no_fault example_db "''s1''" "''r''"]
       ok
  have one: "\<exists>d' status.
      add_objects example_cast no_fault ''s1'' example_db ''r'' ''c1''
        [''objects'' \<mapsto>
           [stix ''a'' ''t1'', stix ''a'' ''t1'', stix ''b'' ''t1'', stix ''a'' ''t1'', stix ''c'' ''t1'']]
        ''now'' = (d', Inr status)"
    by fastforce
  from outcome_lists_in_batch_order
         [of "[''objects'' \<mapsto> [stix ''a'' ''t1'', numbered]]" "[stix ''a'' ''t1'', numbered]"
             "''c1''" "''now''" example_cast no_fault example_db "''s1''" "''r''"]
       num
  have two: "\<exists>d' e. add_objects example_cast no_fault ''s1'' example_db ''r'' ''c1''
              [''objects'' \<mapsto> [stix ''a'' ''t1'', numbered]] ''now'' = (d', Inl e)"
    by simp
  from ok loop run num one two show ?thesis by blast
qed

text \<open>
  The claim as stated fails three times. At the batch of four items whose second and
  fourth lack \<^verbatim>\<open>type\<close> no status results at all, and none at a batch with the number 5 as
  an id. At a batch of two new objects \<open>a\<close> and \<open>b\<close> the \<open>successes\<close> field of the status
  is \<open>ab\<close>, which the status lookup returns as the one id \<open>ab\<close>.
\<close>

theorem status_lists_counterexample:
  "snd (add_objects example_cast no_fault ''s1'' example_db ''r'' ''c1''
          [''objects'' \<mapsto>
             [stix ''a'' ''t1'', [(''id'', JString ''m'')], stix ''b'' ''t1'', [(''id'', JString ''n'')]]]
          ''now'')
     = Inl (KeyError ''type'') \<and>
   snd (add_objects example_cast no_fault ''s1'' example_db ''r'' ''c1''
          [''objects'' \<mapsto> [stix ''a'' ''t1'', numbered]] ''now'')
     = Inl TypeError \<and>
   status_field ''successes''
     (get_status
        (fst (add_objects example_cast no_fault ''s1'' example_db ''r'' ''c1''
                [''objects'' \<mapsto> [stix ''a'' ''t1'', stix ''b'' ''t1'']] ''now''))
        ''r'' ''s1'')
     = Some (PList [''ab''])"
  by (simp add: example_defs status_field_def get_status_def split_or_empty_def)

subsection \<open>C5: the latest version of each object\<close>

text \<open>
  C5 at the database with the versions \<open>t1\<close>, \<open>t2\<close> and \<open>t3\<close> of \<open>x\<close>. The statement of
  \<^verbatim>\<open>get_objects\<close> selects \<^verbatim>\<open>object\<close> and orders by \<^verbatim>\<open>modified\<close> outside an aggregate
  while it groups by \<^verbatim>\<open>id\<close> alone, which is not the whole primary key: the database
  refuses it, and \<^verbatim>\<open>get_objects\<close> raises instead of returning the payload of \<open>t3\<close>.
\<close>

theorem get_objects_statement_refused:
  "map obj_modified (tbl_objects three_and_one) = [''t1'', ''t2'', ''t1'', ''t3''] \<and>
   get_objects three_and_one ''r'' ''c1'' () () = Inl (DBAPIError ProgrammingError)"
  by (simp add: get_objects_refused three_and_one_def example_defs)

subsection \<open>C6: the manifest\<close>

text \<open>
  C6, as the code has it. The manifest has exactly one entry per distinct object id of
  the whole \<^verbatim>\<open>objects\<close> table: the collection id is not used. The \<open>versions\<close> of an entry
  are the \<open>modified\<close> strings of all rows of its id, in table order, and its \<open>date_added\<close>
  is that of the id's first row, which is the earliest one when the rows of the table are
  in the order of their \<open>date_added\<close>.
\<close>

theorem manifest_per_id:
  "distinct (map man_id (get_object_manifest d api_root collection_id fa af)) \<and>
   set (map man_id (get_object_manifest d api_root collection_id fa af))
     = set (map obj_id (tbl_objects d)) \<and>
   (\<forall>e \<in> set (get_object_manifest d api_root collection_id fa af).
      man_versions e = map obj_modified (filter (\<lambda>r. obj_id r = man_id e) (tbl_objects d)) \<and>
      man_date_added e = obj_date_added (hd (filter (\<lambda>r. obj_id r = man_id e) (tbl_objects d))) \<and>
      (sorted (map obj_date_added (tbl_objects d)) \<longrightarrow>
         (\<forall>r \<in> set (tbl_objects d).
            obj_id r = man_id e \<longrightarrow> man_date_added e \<le> obj_date_added r)))"
proof -
  have ids: "map man_id (get_object_manifest d api_root collection_id fa af)
               = first_ids (map obj_id (tbl_objects d))"
    by (simp add: get_object_manifest_closed comp_def)
  have entries: "\<And>e. e \<in> set (get_object_manifest d api_root collection_id fa af) \<Longrightarrow>
      man_versions e = map obj_modified (filter (\<lambda>r. obj_id r = man_id e) (tbl_objects d)) \<and>
      man_date_added e = obj_date_added (hd (filter (\<lambda>r. obj_id r = man_id e) (tbl_objects d)))"
    by (auto simp: get_object_manifest_closed)
  show ?thesis
    using entries hd_filter_least [of obj_date_added "tbl_objects d"]
    by (simp add: ids distinct_first_ids set_first_ids)
qed

text \<open>
  The theorem after three versions of \<open>x\<close> and one of \<open>y\<close> were ingested: two entries,
  the first with three versions.
\<close>

theorem manifest_per_id_witness:
  "sorted (map obj_date_added (tbl_objects three_and_one)) \<and>
   map man_id (get_object_manifest three_and_one ''r'' ''c1'' () ()) = [''x'', ''y''] \<and>
   map man_versions (get_object_manifest three_and_one ''r'' ''c1'' () ())
     = [[''t1'', ''t2'', ''t3''], [''t1'']] \<and>
   map man_date_added (get_object_manifest three_and_one ''r'' ''c1'' () ()) = [''now'', ''now'']"
  using manifest_per_id [of three_and_one "''r''" "''c1''" "()" "()"]
  by (simp add: three_and_one_def example_defs get_object_manifest_def)

text \<open>
  The claim as stated fails where two collections hold objects: the first collection
  holds only \<open>x\<close>, yet its manifest also lists \<open>y\<close> of the second collection. And the
  \<open>date_added\<close> of \<open>x\<close> is that of its first row, \<open>2\<close>, although its second version was
  added with the earlier request time \<open>1\<close>.
\<close>

theorem manifest_ignores_collection:
  "ids_in_collection two_collections ''c1'' = [''x'', ''x''] \<and>
   map obj_id (tbl_objects two_collections) = [''x'', ''x'', ''y''] \<and>
   map obj_date_added (tbl_objects two_collections) = [''2'', ''1'', ''3''] \<and>
   map man_id (get_object_manifest two_collections ''r'' ''c1'' () ()) = [''x'', ''y''] \<and>
   map man_date_added (get_object_manifest two_collections ''r'' ''c1'' () ()) = [''2'', ''3'']"
  by (simp add: two_collections_def example_defs get_object_manifest_def ids_in_collection_def)

subsection \<open>C7: reads of an unknown id\<close>

text \<open>
  C7 at an object id that no row has. \<^verbatim>\<open>get_collection\<close> and \<^verbatim>\<open>get_status\<close> return
  \<^verbatim>\<open>None\<close> for an unknown id, but \<^verbatim>\<open>get_object\<close> indexes the empty list of rows and
  raises IndexError.
\<close>

theorem get_object_unknown_id_raises:
  "get_object example_db ''r'' ''c1'' ''unknown'' () () = Inl IndexError"
  by (simp add: get_object_def example_db_def)

subsection \<open>C8: the id lists of a status, written and read back\<close>

text \<open>
  C8 at a batch of two new objects \<open>a\<close> and \<open>b\<close>, whose ids hold no comma. The ids of the
  successes are joined with the empty string, so the status stores \<open>ab\<close> and the status
  lookup returns the one id \<open>ab\<close> instead of \<open>a\<close> and \<open>b\<close>.
\<close>

theorem successes_joined_without_delimiter:
  "snd (add_loop example_cast no_fault ''c1'' ''now'' [stix ''a'' ''t1'', stix ''b'' ''t1'']
          example_db [] [] 0)
     = Inr ([JString ''a'', JString ''b''], [], 0) \<and>
   status_field ''successes''
     (get_status
        (fst (add_objects example_cast no_fault ''s1'' example_db ''r'' ''c1''
                [''objects'' \<mapsto> [stix ''a'' ''t1'', stix ''b'' ''t1'']] ''now''))
        ''r'' ''s1'')
     = Some (PList [''ab''])"
  by (simp add: example_defs status_field_def get_status_def split_or_empty_def)

subsection \<open>C9: the default media type\<close>

text \<open>
  C9 at a collection created without media types. The row holds the column's server
  default, which has no version parameter; the key \<^verbatim>\<open>media_types\<close> is present in the
  dictionary, so \<^verbatim>\<open>setdefault\<close> never supplies the default with \<^verbatim>\<open>version=2.0\<close>, and the
  read returns the one-element list of the server default.
\<close>

theorem default_media_type_lacks_version:
  "collection_field ''media_types'' (get_collection example_db ''r'' ''c1'')
     = Inr (Some (PList [''application/vnd.oasis.stix+json'']))"
  by (simp add: collection_field_def status_field_def get_collection_def setdefault_def
        Collections_to_dict_def py_opt_def example_db_def Collections_def)

subsection \<open>C10: access flags of a found collection\<close>

text \<open>
  C10. When the query of \<^verbatim>\<open>get_collection\<close> finds a row, every dictionary the read
  returns, for any API root, has \<^verbatim>\<open>can_read\<close> and \<^verbatim>\<open>can_write\<close> set to \<^verbatim>\<open>True\<close>; and the
  read does return a dictionary unless the row's \<^verbatim>\<open>media_types\<close> is NULL.
\<close>

theorem found_collection_readable_writable:
  assumes "filter (\<lambda>c. col_id c = collection_id) (tbl_collections d) = q # qs"
  shows "(\<forall>c. get_collection d api_root collection_id = Inr (Some c) \<longrightarrow>
            c ''can_read'' = Some (PBool True) \<and> c ''can_write'' = Some (PBool True))
       \<and> (col_media_types q \<noteq> None \<longrightarrow>
            (\<exists>c. get_collection d api_root collection_id = Inr (Some c)))"
  using assms
  by (auto simp: get_collection_def setdefault_def Collections_to_dict_def py_opt_def
           split: option.splits pyval.splits)

text \<open>The theorem at the second collection of the example database.\<close>

theorem found_collection_readable_writable_witness:
  "collection_field ''can_read'' (get_collection example_db ''api'' ''c2'') = Inr (Some (PBool True)) \<and>
   collection_field ''can_write'' (get_collection example_db ''api'' ''c2'') = Inr (Some (PBool True)) \<and>
   collection_field ''media_types'' (get_collection example_db ''api'' ''c2'')
     = Inr (Some (PList [''text/plain'', ''text/html'']))"
proof -
  have found: "filter (\<lambda>c. col_id c = ''c2'') (tbl_collections example_db)
                 = [Collections ''c2'' None None (Some ''text/plain,text/html'') None]"
    by (simp add: example_db_def Collections_def)
  have mt: "col_media_types (Collections ''c2'' None None (Some ''text/plain,text/html'') None) \<noteq> None"
    by (simp add: Collections_def)
  from found_collection_readable_writable [OF found, of "''api''"] mt
  obtain c where c: "get_collection example_db ''api'' ''c2'' = Inr (Some c)"
    and flags: "c ''can_read'' = Some (PBool True)" "c ''can_write'' = Some (PBool True)"
    by blast
  have "collection_field ''media_types'' (get_collection example_db ''api'' ''c2'')
     = Inr (Some (PList [''text/plain'', ''text/html'']))"
    by (simp add: collection_field_def status_field_def get_collection_def setdefault_def
          Collections_to_dict_def py_opt_def example_db_def Collections_def)
  with c flags show ?thesis
    by (simp add: collection_field_def status_field_def)
qed

end
